theory Spec2Isabelle
  imports Complex_Main
begin

section \<open>Values shared by the backend service\<close>

text \<open>
  Values the license service builds from object literals: booleans, numbers, strings and
  nested object literals (own properties in the order written). A call that returns nothing
  yields \<open>LUndefined\<close>.
\<close>

datatype lit =
    LUndefined
  | LBool bool
  | LNum rat
  | LStr string
  | LObj "(string \<times> lit) list"

text \<open>\<^verbatim>\<open>Number.MAX_SAFE_INTEGER\<close>, that is \<open>2 ^ 53 - 1\<close>.\<close>

definition MAX_SAFE_INTEGER :: rat where
  "MAX_SAFE_INTEGER = 9007199254740991"

text \<open>Property lookup in a literal, and lookup along a path of property names.\<close>

fun field :: "string \<Rightarrow> lit \<Rightarrow> lit option" where
  "field k (LObj kvs) = map_of kvs k"
| "field k _ = None"

fun lit_at :: "string list \<Rightarrow> lit \<Rightarrow> lit option" where
  "lit_at [] v = Some v"
| "lit_at (k # ks) v = (case field k v of None \<Rightarrow> None | Some w \<Rightarrow> lit_at ks w)"

text \<open>
  What a call can throw. \<open>TypeError\<close> is the engine's own error (calling something that is
  not a function, writing a property of \<open>undefined\<close>); \<open>Rejection r\<close> is a promise rejected
  with reason \<open>r\<close>.
\<close>

datatype 'r js_error = TypeError | Rejection 'r

section \<open>The license service (class LicenseService)\<close>

text \<open>
  The \<open>License\<close> and \<open>LicenseState\<close> classes are imported, not defined, by the service. The
  service only assigns function-valued properties on the two objects, so an object is the
  table of its function-valued properties; a function value maps the argument list of a
  call to the value returned.
\<close>

type_synonym closure = "lit list \<Rightarrow> lit"
type_synonym js_methods = "string \<rightharpoonup> closure"


text \<open>A line handed to the logger: level, message, and the structured fields if any.\<close>

record log_entry =
  log_level :: string
  log_message :: string
  log_fields :: "(string \<times> lit) list option"

text \<open>An event handed to the event service: its name and its payload.\<close>

record emitted =
  event_name :: string
  event_payload :: "(string \<times> lit) list"

text \<open>
  What the instance holds at the moment of a call. \<open>WorkflowRepository\<close> is imported, not
  defined, by the service: its two queries \<open>getActiveTriggerCount\<close> and
  \<open>getWorkflowsWithEvaluationCount\<close> are taken to return the first two counts. The number
  of users and of variables is what a usage record is compared with; the service holds no
  collaborator that reads either.
\<close>

record instance_data =
  activeTriggers :: nat
  workflowsWithEvaluations :: nat
  userCount :: nat
  variableCount :: nat

definition getActiveTriggerCount :: "instance_data \<Rightarrow> nat" where
  "getActiveTriggerCount db = activeTriggers db"

definition getWorkflowsWithEvaluationCount :: "instance_data \<Rightarrow> nat" where
  "getWorkflowsWithEvaluationCount db = workflowsWithEvaluations db"

text \<open>
  The service's constructor parameters, as the state the service reads and writes: the
  logger and the event service are the lines and events received so far. (\<open>urlService\<close> is
  only used in code that is commented out.)
\<close>

record LicenseService =
  logger :: "log_entry list"
  license :: js_methods
  licenseState :: js_methods
  workflowRepository :: instance_data
  eventService :: "emitted list"

definition logger_info :: "string \<Rightarrow> (string \<times> lit) list option \<Rightarrow> LicenseService \<Rightarrow> LicenseService" where
  "logger_info msg flds s =
     s\<lparr>logger := logger s @ [\<lparr>log_level = ''info'', log_message = msg, log_fields = flds\<rparr>]\<rparr>"

definition emit :: "string \<Rightarrow> (string \<times> lit) list \<Rightarrow> LicenseService \<Rightarrow> LicenseService" where
  "emit name payload s =
     s\<lparr>eventService := eventService s @ [\<lparr>event_name = name, event_payload = payload\<rparr>]\<rparr>"

text \<open>\<open>patchLicenseForEnterprise\<close>: the assignments of lines 43 to 82, then the log line.\<close>

definition patch_license :: "js_methods \<Rightarrow> js_methods" where
  "patch_license lic = lic
     (''getTriggerLimit'' \<mapsto> (\<lambda>_. LNum MAX_SAFE_INTEGER),
      ''getPlanName'' \<mapsto> (\<lambda>_. LStr ''Enterprise''),
      ''isFeatureEnabled'' \<mapsto> (\<lambda>_. LBool True),
      ''hasValidLicense'' \<mapsto> (\<lambda>_. LBool True),
      ''isVariablesEnabled'' \<mapsto> (\<lambda>_. LBool True),
      ''getVariablesLimit'' \<mapsto> (\<lambda>_. LNum MAX_SAFE_INTEGER),
      ''isAdvancedPermissionsEnabled'' \<mapsto> (\<lambda>_. LBool True),
      ''isSourceControlEnabled'' \<mapsto> (\<lambda>_. LBool True),
      ''isAuditLogsEnabled'' \<mapsto> (\<lambda>_. LBool True),
      ''isSsoEnabled'' \<mapsto> (\<lambda>_. LBool True),
      ''isLogStreamingEnabled'' \<mapsto> (\<lambda>_. LBool True),
      ''isApiDisabled'' \<mapsto> (\<lambda>_. LBool False),
      ''isWorkflowHistoryEnabled'' \<mapsto> (\<lambda>_. LBool True),
      ''isDebugInEditorEnabled'' \<mapsto> (\<lambda>_. LBool True),
      ''isBinaryDataS3Enabled'' \<mapsto> (\<lambda>_. LBool True),
      ''isMultipleMainInstancesEnabled'' \<mapsto> (\<lambda>_. LBool True),
      ''getMainPlan'' \<mapsto> (\<lambda>_. LObj
          [(''productId'', LStr ''enterprise-unlimited''),
           (''productName'', LStr ''Enterprise Unlimited''),
           (''productMetadata'', LObj [])]),
      ''getUsersLimit'' \<mapsto> (\<lambda>_. LNum MAX_SAFE_INTEGER),
      ''isWithinUsersLimit'' \<mapsto> (\<lambda>_. LBool True),
      ''getWorkflowLimit'' \<mapsto> (\<lambda>_. LNum MAX_SAFE_INTEGER),
      ''isWithinWorkflowLimit'' \<mapsto> (\<lambda>_. LBool True),
      ''getManagementJwt'' \<mapsto> (\<lambda>_. LStr ''enterprise-bypass-token''))"

definition patch_licenseState :: "js_methods \<Rightarrow> js_methods" where
  "patch_licenseState ls = ls
     (''getMaxWorkflowsWithEvaluations'' \<mapsto> (\<lambda>_. LNum MAX_SAFE_INTEGER),
      ''isFeatureEnabled'' \<mapsto> (\<lambda>_. LBool True))"

definition patchLicenseForEnterprise :: "LicenseService \<Rightarrow> LicenseService" where
  "patchLicenseForEnterprise s =
     logger_info ''Enterprise features enabled via license override'' None
       (s\<lparr>license := patch_license (license s),
          licenseState := patch_licenseState (licenseState s)\<rparr>)"


text \<open>The names assigned on the license object and on the license-state object.\<close>

definition license_patched :: "string list" where
  "license_patched =
     [''getTriggerLimit'', ''getPlanName'', ''isFeatureEnabled'', ''hasValidLicense'',
      ''isVariablesEnabled'', ''getVariablesLimit'', ''isAdvancedPermissionsEnabled'',
      ''isSourceControlEnabled'', ''isAuditLogsEnabled'', ''isSsoEnabled'',
      ''isLogStreamingEnabled'', ''isApiDisabled'', ''isWorkflowHistoryEnabled'',
      ''isDebugInEditorEnabled'', ''isBinaryDataS3Enabled'', ''isMultipleMainInstancesEnabled'',
      ''getMainPlan'', ''getUsersLimit'', ''isWithinUsersLimit'', ''getWorkflowLimit'',
      ''isWithinWorkflowLimit'', ''getManagementJwt'']"

definition licenseState_patched :: "string list" where
  "licenseState_patched = [''getMaxWorkflowsWithEvaluations'', ''isFeatureEnabled'']"

text \<open>\<open>getLicenseData\<close>: two awaited repository queries, then the literal of lines 93 to 133.\<close>

definition getLicenseData :: "LicenseService \<Rightarrow> lit" where
  "getLicenseData s =
     (let triggerCount = getActiveTriggerCount (workflowRepository s);
          workflowsWithEvaluationsCount = getWorkflowsWithEvaluationCount (workflowRepository s)
      in LObj
        [(''usage'', LObj
           [(''activeWorkflowTriggers'', LObj
              [(''value'', LNum (of_nat triggerCount)),
               (''limit'', LNum MAX_SAFE_INTEGER),
               (''warningThreshold'', LNum (8 / 10))]),
            (''workflowsHavingEvaluations'', LObj
              [(''value'', LNum (of_nat workflowsWithEvaluationsCount)),
               (''limit'', LNum MAX_SAFE_INTEGER)]),
            (''users'', LObj
              [(''value'', LNum 1),
               (''limit'', LNum MAX_SAFE_INTEGER),
               (''warningThreshold'', LNum (8 / 10))]),
            (''variables'', LObj
              [(''value'', LNum 0),
               (''limit'', LNum MAX_SAFE_INTEGER),
               (''warningThreshold'', LNum (8 / 10))])]),
         (''license'', LObj
           [(''planId'', LStr ''enterprise-unlimited''),
            (''planName'', LStr ''Enterprise''),
            (''isValidLicense'', LBool True),
            (''validConsumerId'', LStr ''enterprise-consumer'')]),
         (''features'', LObj
           [(''variables'', LBool True),
            (''advancedPermissions'', LBool True),
            (''sourceControl'', LBool True),
            (''auditLogs'', LBool True),
            (''sso'', LBool True),
            (''logStreaming'', LBool True),
            (''workflowHistory'', LBool True),
            (''debugInEditor'', LBool True),
            (''binaryDataS3'', LBool True),
            (''multipleMainInstances'', LBool True)])])"

text \<open>The \<open>User\<close> fields the service reads.\<close>

record User =
  user_email :: string
  user_firstName :: string
  user_lastName :: string

definition requestEnterpriseTrial :: "User \<Rightarrow> LicenseService \<Rightarrow> (lit js_error + unit) \<times> LicenseService" where
  "requestEnterpriseTrial user s =
     (Inr (),
      logger_info ''Enterprise trial requested (bypassed)''
        (Some [(''email'', LStr (user_email user)),
               (''firstName'', LStr (user_firstName user)),
               (''lastName'', LStr (user_lastName user))]) s)"

text \<open>The argument object of \<open>registerCommunityEdition\<close>.\<close>

record registration =
  userId :: string
  email :: string
  instanceId :: string
  instanceUrl :: string
  licenseType :: string

record notice =
  title :: string
  body :: string

definition registerCommunityEdition ::
  "registration \<Rightarrow> LicenseService \<Rightarrow> (lit js_error + notice) \<times> LicenseService" where
  "registerCommunityEdition r s =
     (let s1 = logger_info ''Community edition registration (bypassed)''
                 (Some [(''userId'', LStr (userId r)),
                        (''email'', LStr (email r)),
                        (''instanceId'', LStr (instanceId r)),
                        (''licenseType'', LStr (licenseType r))]) s;
          s2 = emit ''license-community-plus-registered''
                 [(''userId'', LStr (userId r)),
                  (''email'', LStr (email r)),
                  (''licenseKey'', LStr ''enterprise-bypass-key'')] s1
      in (Inr \<lparr>title = ''Enterprise Features Enabled'',
               body = ''All enterprise features have been enabled for this instance.''\<rparr>,
          s2))"

definition getManagementJwt :: "LicenseService \<Rightarrow> string" where
  "getManagementJwt s = ''enterprise-bypass-token''"

definition activateLicense :: "string \<Rightarrow> LicenseService \<Rightarrow> (lit js_error + unit) \<times> LicenseService" where
  "activateLicense activationKey s =
     (let s1 = logger_info ''License activation bypassed''
                 (Some [(''activationKey'', LStr ''***hidden***'')]) s;
          s2 = emit ''license-activated''
                 [(''activationKey'', LStr ''enterprise-bypass-key''),
                  (''planName'', LStr ''Enterprise'')] s1
      in (Inr (), s2))"

definition renewLicense :: "LicenseService \<Rightarrow> (lit js_error + unit) \<times> LicenseService" where
  "renewLicense s =
     (let s1 = logger_info ''License renewal bypassed'' None s;
          s2 = emit ''license-renewal-attempted'' [(''success'', LBool True)] s1
      in (Inr (), s2))"

definition isEnterpriseEnabled :: "LicenseService \<Rightarrow> bool" where
  "isEnterpriseEnabled s = True"

definition checkFeatureAvailability :: "string \<Rightarrow> LicenseService \<Rightarrow> lit js_error + bool" where
  "checkFeatureAvailability feature s = Inr True"

text \<open>A service whose collaborators are all empty, for concrete evaluations.\<close>

definition bare_deps :: LicenseService where
  "bare_deps =
     \<lparr>logger = [], license = Map.empty, licenseState = Map.empty,
      workflowRepository =
        \<lparr>activeTriggers = 0, workflowsWithEvaluations = 0, userCount = 0, variableCount = 0\<rparr>,
      eventService = []\<rparr>"


definition three_users_deps :: LicenseService where
  "three_users_deps =
     bare_deps\<lparr>workflowRepository :=
       \<lparr>activeTriggers = 4, workflowsWithEvaluations = 2, userCount = 3, variableCount = 5\<rparr>\<rparr>"

section \<open>The settings store (settings.store.ts): values and objects\<close>

text \<open>
  The store holds references to objects that other code holds too (the fetched payload
  above all), and it writes to them. Objects therefore live in a heap: a list of objects,
  an address being an index; an object is the table of its own properties. A value is a
  primitive or the address of an object.
\<close>

datatype jsval =
    JUndefined
  | JNull
  | JBool bool
  | JNum rat
  | JStr string
  | JRef nat

type_synonym jsobj = "string \<rightharpoonup> jsval"
type_synonym heap = "jsobj list"

text \<open>What \<open>if (v)\<close>, \<open>!!v\<close> and \<open>v || w\<close> test.\<close>

fun truthy :: "jsval \<Rightarrow> bool" where
  "truthy JUndefined = False"
| "truthy JNull = False"
| "truthy (JBool b) = b"
| "truthy (JNum n) = (n \<noteq> 0)"
| "truthy (JStr s) = (s \<noteq> [])"
| "truthy (JRef a) = True"

text \<open>The object at an address. No reference of a running program dangles; an address
  outside the heap reads as an object without properties.\<close>

definition deref :: "heap \<Rightarrow> nat \<Rightarrow> jsobj" where
  "deref h a = (if a < length h then h ! a else Map.empty)"

text \<open>\<open>o.k\<close> for an object \<open>o\<close>: a property that is not there reads \<open>undefined\<close>.\<close>

definition get_own :: "heap \<Rightarrow> nat \<Rightarrow> string \<Rightarrow> jsval" where
  "get_own h a k = (case deref h a k of None \<Rightarrow> JUndefined | Some v \<Rightarrow> v)"

text \<open>
  \<open>v?.k\<close> for any value, and \<open>v.k\<close> for a value that is neither \<open>undefined\<close> nor \<open>null\<close>:
  a boolean, a number and a string have none of the properties the store reads
  (\<open>enabled\<close>, \<open>secure\<close>, \<open>host\<close>, \<open>showSetupOnFirstLoad\<close>).
\<close>

fun get_prop :: "heap \<Rightarrow> jsval \<Rightarrow> string \<Rightarrow> jsval" where
  "get_prop h (JRef a) k = get_own h a k"
| "get_prop h _ k = JUndefined"

text \<open>\<open>o.k = v\<close> for an object \<open>o\<close>.\<close>

definition set_prop :: "heap \<Rightarrow> nat \<Rightarrow> string \<Rightarrow> jsval \<Rightarrow> heap" where
  "set_prop h a k v = h[a := (deref h a)(k \<mapsto> v)]"

text \<open>An object literal creates an object at the next free address.\<close>

definition alloc :: "heap \<Rightarrow> jsobj \<Rightarrow> nat \<times> heap" where
  "alloc h obj = (length h, h @ [obj])"

text \<open>
  \<open>{...v}\<close>: the own enumerable properties of \<open>v\<close>. An object gives its properties, a string
  gives one property per position (named by the position in decimal), every other value
  gives none.
\<close>

definition digit :: "nat \<Rightarrow> char" where
  "digit d = char_of (48 + d)"

function index_key :: "nat \<Rightarrow> string" where
  "index_key n = (if n < 10 then [digit n] else index_key (n div 10) @ [digit (n mod 10)])"
  by pat_completeness auto
termination
  by (relation "measure id") auto

declare index_key.simps [simp del]

definition string_props :: "string \<Rightarrow> jsobj" where
  "string_props s = map_of (zip (map index_key [0..<length s]) (map (\<lambda>c. JStr [c]) s))"

fun own_props :: "heap \<Rightarrow> jsval \<Rightarrow> jsobj" where
  "own_props h (JRef a) = deref h a"
| "own_props h (JStr s) = string_props s"
| "own_props h _ = Map.empty"

section \<open>The settings store: state\<close>

text \<open>The toast shown on a failed start, by its i18n keys.\<close>

record toast =
  toast_title :: string
  toast_message :: string
  toast_type :: string
  toast_duration :: nat

text \<open>
  The refs of the store (lines 33 to 57), the heap they point into, and what the store has
  done to its collaborators: the calls made on the root store and on the versions store,
  the text written to the document, the toasts shown, the session-started requests sent.
  \<open>settings\<close>, \<open>mfa\<close> and \<open>folders\<close> always hold an object; \<open>userManagement\<close>, \<open>api\<close> and
  \<open>moduleSettings\<close> hold whatever was assigned.
\<close>

record store =
  heap :: heap
  initialized :: bool
  settings :: nat
  moduleSettings :: jsval
  userManagement :: jsval
  templatesEndpointHealthy :: bool
  api :: jsval
  mfa :: nat
  folders :: nat
  saveDataErrorExecution :: jsval
  saveDataSuccessExecution :: jsval
  saveManualExecutions :: jsval
  saveDataProgressExecution :: jsval
  rootStore :: "(string \<times> jsval) list"
  versionsStore :: "jsval list"
  documentWrites :: "string list"
  toasts :: "toast list"
  sessionStarted :: nat

text \<open>
  What \<open>setSettings\<close> reads from the browser: \<open>location.protocol\<close>, \<open>location.hostname\<close>,
  the browser name that \<open>Bowser.parse(navigator.userAgent)\<close> reports, and the imported
  constant \<open>INSECURE_CONNECTION_WARNING\<close>.
\<close>

record browser_env =
  location_protocol :: string
  location_hostname :: string
  browser_name :: "string option"
  INSECURE_CONNECTION_WARNING :: string

text \<open>The enum member \<open>UserManagementAuthenticationMethod.Email\<close>, imported by the store.\<close>

definition AuthenticationMethod_Email :: jsval where
  "AuthenticationMethod_Email = JStr ''email''"

text \<open>The store as \<open>defineStore\<close>'s setup function creates it (lines 33 to 57).\<close>

definition init_store :: store where
  "init_store =
     \<lparr>heap =
        [Map.empty,
         Map.empty,
         [''quota'' \<mapsto> JNum (- 1), ''showSetupOnFirstLoad'' \<mapsto> JBool False,
          ''smtpSetup'' \<mapsto> JBool False, ''authenticationMethod'' \<mapsto> AuthenticationMethod_Email],
         [''enabled'' \<mapsto> JBool False],
         [''enabled'' \<mapsto> JBool False, ''latestVersion'' \<mapsto> JNum 0, ''path'' \<mapsto> JStr ''/'',
          ''swaggerUi'' \<mapsto> JRef 3],
         [''enabled'' \<mapsto> JBool False],
         [''enabled'' \<mapsto> JBool False]],
      initialized = False,
      settings = 0,
      moduleSettings = JRef 1,
      userManagement = JRef 2,
      templatesEndpointHealthy = False,
      api = JRef 4,
      mfa = 5,
      folders = 6,
      saveDataErrorExecution = JStr ''all'',
      saveDataSuccessExecution = JStr ''all'',
      saveManualExecutions = JBool False,
      saveDataProgressExecution = JBool False,
      rootStore = [],
      versionsStore = [],
      documentWrites = [],
      toasts = [],
      sessionStarted = 0\<rparr>"

section \<open>The settings store: computed values\<close>


text \<open>Line 78: the computed value is a function, constant in its arguments.\<close>

definition isEnterpriseFeatureEnabled :: "store \<Rightarrow> jsval list \<Rightarrow> bool" where
  "isEnterpriseFeatureEnabled st = (\<lambda>args. True)"

text \<open>Lines 155 and 157.\<close>

definition isTemplatesEndpointReachable :: "store \<Rightarrow> bool" where
  "isTemplatesEndpointReachable st = templatesEndpointHealthy st"

definition templatesHost :: "store \<Rightarrow> jsval" where
  "templatesHost st = get_prop (heap st) (get_own (heap st) (settings st) ''templates'') ''host''"

text \<open>Lines 173 and 188.\<close>

definition isWorkerViewAvailable :: "store \<Rightarrow> bool" where
  "isWorkerViewAvailable st = True"


text \<open>Lines 195 to 212.\<close>

definition isVariablesEnabled :: "store \<Rightarrow> bool" where
  "isVariablesEnabled st = True"


definition isAdvancedPermissionsEnabled :: "store \<Rightarrow> bool" where
  "isAdvancedPermissionsEnabled st = True"

definition isSourceControlEnabled :: "store \<Rightarrow> bool" where
  "isSourceControlEnabled st = True"

definition isAuditLogsEnabled :: "store \<Rightarrow> bool" where
  "isAuditLogsEnabled st = True"

definition isSsoEnabled :: "store \<Rightarrow> bool" where
  "isSsoEnabled st = True"

definition isLogStreamingEnabled :: "store \<Rightarrow> bool" where
  "isLogStreamingEnabled st = True"

definition isWorkflowHistoryEnabled :: "store \<Rightarrow> bool" where
  "isWorkflowHistoryEnabled st = True"

definition isDebugInEditorEnabled :: "store \<Rightarrow> bool" where
  "isDebugInEditorEnabled st = True"

definition isBinaryDataS3Enabled :: "store \<Rightarrow> bool" where
  "isBinaryDataS3Enabled st = True"

definition isMultipleMainInstancesEnabled :: "store \<Rightarrow> bool" where
  "isMultipleMainInstancesEnabled st = True"

definition isAdvancedExecutionFiltersEnabled :: "store \<Rightarrow> bool" where
  "isAdvancedExecutionFiltersEnabled st = True"

definition isLdapEnabled :: "store \<Rightarrow> bool" where
  "isLdapEnabled st = True"

definition isSamlEnabled :: "store \<Rightarrow> bool" where
  "isSamlEnabled st = True"

definition isExternalSecretsEnabled :: "store \<Rightarrow> bool" where
  "isExternalSecretsEnabled st = True"

definition isWorkflowSharingEnabled :: "store \<Rightarrow> bool" where
  "isWorkflowSharingEnabled st = True"

definition isProjectsEnabled :: "store \<Rightarrow> bool" where
  "isProjectsEnabled st = True"

definition isRbacEnabled :: "store \<Rightarrow> bool" where
  "isRbacEnabled st = True"


text \<open>Lines 443 to 453.\<close>

definition hasFeature :: "string \<Rightarrow> bool" where
  "hasFeature featureName = True"

definition isFeatureEnabled :: "string \<Rightarrow> bool" where
  "isFeatureEnabled featureName = True"

definition getFeatureFlag :: "string \<Rightarrow> bool" where
  "getFeatureFlag flagName = True"

text \<open>The feature keys, the name of each, and the getter of each.\<close>

datatype feature_key =
    Variables | AdvancedPermissions | SourceControl | AuditLogs | Sso | LogStreaming
  | WorkflowHistory | DebugInEditor | BinaryDataS3 | MultipleMainInstances
  | AdvancedExecutionFilters | Ldap | Saml | ExternalSecrets | WorkflowSharing | Projects
  | Rbac | WorkerView

fun key_name :: "feature_key \<Rightarrow> string" where
  "key_name Variables = ''variables''"
| "key_name AdvancedPermissions = ''advancedPermissions''"
| "key_name SourceControl = ''sourceControl''"
| "key_name AuditLogs = ''auditLogs''"
| "key_name Sso = ''sso''"
| "key_name LogStreaming = ''logStreaming''"
| "key_name WorkflowHistory = ''workflowHistory''"
| "key_name DebugInEditor = ''debugInEditor''"
| "key_name BinaryDataS3 = ''binaryDataS3''"
| "key_name MultipleMainInstances = ''multipleMainInstances''"
| "key_name AdvancedExecutionFilters = ''advancedExecutionFilters''"
| "key_name Ldap = ''ldap''"
| "key_name Saml = ''saml''"
| "key_name ExternalSecrets = ''externalSecrets''"
| "key_name WorkflowSharing = ''workflowSharing''"
| "key_name Projects = ''projects''"
| "key_name Rbac = ''rbac''"
| "key_name WorkerView = ''workerView''"

fun enablement_getter :: "feature_key \<Rightarrow> store \<Rightarrow> bool" where
  "enablement_getter Variables = isVariablesEnabled"
| "enablement_getter AdvancedPermissions = isAdvancedPermissionsEnabled"
| "enablement_getter SourceControl = isSourceControlEnabled"
| "enablement_getter AuditLogs = isAuditLogsEnabled"
| "enablement_getter Sso = isSsoEnabled"
| "enablement_getter LogStreaming = isLogStreamingEnabled"
| "enablement_getter WorkflowHistory = isWorkflowHistoryEnabled"
| "enablement_getter DebugInEditor = isDebugInEditorEnabled"
| "enablement_getter BinaryDataS3 = isBinaryDataS3Enabled"
| "enablement_getter MultipleMainInstances = isMultipleMainInstancesEnabled"
| "enablement_getter AdvancedExecutionFilters = isAdvancedExecutionFiltersEnabled"
| "enablement_getter Ldap = isLdapEnabled"
| "enablement_getter Saml = isSamlEnabled"
| "enablement_getter ExternalSecrets = isExternalSecretsEnabled"
| "enablement_getter WorkflowSharing = isWorkflowSharingEnabled"
| "enablement_getter Projects = isProjectsEnabled"
| "enablement_getter Rbac = isRbacEnabled"
| "enablement_getter WorkerView = isWorkerViewAvailable"

section \<open>The settings store: operations\<close>

text \<open>
  An operation returns what its caller sees (\<open>Inl\<close> what was thrown, or the rejection of the
  promise of an \<open>async\<close> function; \<open>Inr\<close> the value returned) and the state it leaves. What
  it had written before throwing stays written.
\<close>

type_synonym 'a outcome = "(jsval js_error + 'a) \<times> store"

text \<open>
  Lines 249 to 252. The store is module code, hence strict: assigning to a property of a
  boolean, a number or a string throws a \<open>TypeError\<close>.
\<close>

definition assign_showSetupOnFirstLoad :: "store \<Rightarrow> jsval js_error + store" where
  "assign_showSetupOnFirstLoad st =
     (if truthy (userManagement st) then
        (case userManagement st of
           JRef u \<Rightarrow>
             Inr (st\<lparr>heap := set_prop (heap st) u ''showSetupOnFirstLoad''
                    (JBool (truthy (get_prop (heap st)
                       (get_own (heap st) (settings st) ''userManagement'')
                       ''showSetupOnFirstLoad'')))\<rparr>)
         | _ \<Rightarrow> Inl TypeError)
      else Inr st)"

text \<open>
  Lines 259 to 272: a new object, the spread of \<open>settings.value.enterprise || {}\<close> with
  eleven keys written after it, assigned to \<open>settings.value.enterprise\<close>. (The \<open>{}\<close> of
  \<open>|| {}\<close> is spread and dropped at once; it is not given an address.)
\<close>

definition force_enterprise :: "store \<Rightarrow> store" where
  "force_enterprise st =
     (let e = get_own (heap st) (settings st) ''enterprise'';
          (a, h) = alloc (heap st)
            ((if truthy e then own_props (heap st) e else Map.empty)
               (''variables'' \<mapsto> JBool True,
                ''advancedPermissions'' \<mapsto> JBool True,
                ''sourceControl'' \<mapsto> JBool True,
                ''auditLogs'' \<mapsto> JBool True,
                ''sso'' \<mapsto> JBool True,
                ''logStreaming'' \<mapsto> JBool True,
                ''workflowHistory'' \<mapsto> JBool True,
                ''debugInEditor'' \<mapsto> JBool True,
                ''binaryDataS3'' \<mapsto> JBool True,
                ''multipleMainInstances'' \<mapsto> JBool True,
                ''workerView'' \<mapsto> JBool True))
      in st\<lparr>heap := set_prop h (settings st) ''enterprise'' (JRef a)\<rparr>)"

text \<open>Lines 275 to 280, in the same way for \<open>settings.value.license\<close>.\<close>

definition force_license :: "store \<Rightarrow> store" where
  "force_license st =
     (let l = get_own (heap st) (settings st) ''license'';
          (a, h) = alloc (heap st)
            ((if truthy l then own_props (heap st) l else Map.empty)
               (''planName'' \<mapsto> JStr ''Enterprise'',
                ''isValidLicense'' \<mapsto> JBool True,
                ''validConsumerId'' \<mapsto> JStr ''enterprise-consumer''))
      in st\<lparr>heap := set_prop h (settings st) ''license'' (JRef a)\<rparr>)"

text \<open>Line 253, and lines 254 and 255.\<close>

definition assign_api :: "store \<Rightarrow> store" where
  "assign_api st = st\<lparr>api := get_own (heap st) (settings st) ''publicApi''\<rparr>"

definition assign_mfa_enabled :: "store \<Rightarrow> store" where
  "assign_mfa_enabled st =
     st\<lparr>heap := set_prop (heap st) (mfa st) ''enabled''
            (get_prop (heap st) (get_own (heap st) (settings st) ''mfa'') ''enabled'')\<rparr>"

definition assign_folders_enabled :: "store \<Rightarrow> store" where
  "assign_folders_enabled st =
     st\<lparr>heap := set_prop (heap st) (folders st) ''enabled''
            (get_prop (heap st) (get_own (heap st) (settings st) ''folders'') ''enabled'')\<rparr>"

text \<open>Lines 258 to 281. \<open>settings.value\<close> is an object, so the test succeeds.\<close>

definition patch_settings :: "store \<Rightarrow> store" where
  "patch_settings st =
     (if truthy (JRef (settings st)) then force_license (force_enterprise st) else st)"

text \<open>Lines 283 to 285.\<close>

definition pass_versionCli :: "store \<Rightarrow> store" where
  "pass_versionCli st =
     (let versionCli = get_own (heap st) (settings st) ''versionCli''
      in if truthy versionCli
         then st\<lparr>rootStore := rootStore st @ [(''setVersionCli'', versionCli)]\<rparr>
         else st)"

text \<open>Lines 287 to 296; the \<open>return\<close> of line 294 ends a function that ends there anyway.\<close>

definition warn_insecure_connection :: "browser_env \<Rightarrow> store \<Rightarrow> store" where
  "warn_insecure_connection env st =
     (if truthy (get_prop (heap st) (get_own (heap st) (settings st) ''authCookie'') ''secure'')
      then
        (if location_protocol env = ''http:''
            \<and> (location_hostname env \<notin> set [''localhost'', ''127.0.0.1'']
                \<or> browser_name env = Some ''Safari'')
         then st\<lparr>documentWrites := documentWrites st @ [INSECURE_CONNECTION_WARNING env]\<rparr>
         else st)
      else st)"

text \<open>
  \<open>setSettings\<close>, lines 246 to 297. \<open>newSettings\<close> is the address of the payload object.
\<close>

definition setSettings :: "browser_env \<Rightarrow> nat \<Rightarrow> store \<Rightarrow> unit outcome" where
  "setSettings env newSettings st =
     (let st = st\<lparr>settings := newSettings\<rparr>;
          st = st\<lparr>userManagement := get_own (heap st) newSettings ''userManagement''\<rparr>
      in case assign_showSetupOnFirstLoad st of
           Inl e \<Rightarrow> (Inl e, st)
         | Inr st \<Rightarrow>
             (let st = assign_api st;
                  st = assign_mfa_enabled st;
                  st = assign_folders_enabled st;
                  st = patch_settings st;
                  st = pass_versionCli st
              in (Inr (), warn_insecure_connection env st)))"

text \<open>Lines 299 to 317.\<close>

definition setAllowedModules :: "jsval \<Rightarrow> store \<Rightarrow> store" where
  "setAllowedModules allowedModules st =
     st\<lparr>heap := set_prop (heap st) (settings st) ''allowedModules'' allowedModules\<rparr>"

definition setSaveDataErrorExecution :: "jsval \<Rightarrow> store \<Rightarrow> store" where
  "setSaveDataErrorExecution newValue st = st\<lparr>saveDataErrorExecution := newValue\<rparr>"

definition setSaveDataSuccessExecution :: "jsval \<Rightarrow> store \<Rightarrow> store" where
  "setSaveDataSuccessExecution newValue st = st\<lparr>saveDataSuccessExecution := newValue\<rparr>"

definition setSaveManualExecutions :: "jsval \<Rightarrow> store \<Rightarrow> store" where
  "setSaveManualExecutions newValue st = st\<lparr>saveManualExecutions := newValue\<rparr>"

definition setSaveDataProgressExecution :: "jsval \<Rightarrow> store \<Rightarrow> store" where
  "setSaveDataProgressExecution newValue st = st\<lparr>saveDataProgressExecution := newValue\<rparr>"

text \<open>
  Lines 323 to 350, what \<open>getSettings\<close> does once \<open>setSettings\<close> has returned:
  \<open>copy_to_settings\<close> is \<open>settings.value.k = fetchedSettings.k\<close>, \<open>pass_to\<close> is
  \<open>setter(fetchedSettings.k)\<close> for a setter of the store, \<open>root_call\<close> is
  \<open>rootStore.setter(fetchedSettings.k)\<close>.
\<close>

definition copy_to_settings :: "nat \<Rightarrow> string \<Rightarrow> store \<Rightarrow> store" where
  "copy_to_settings fetchedSettings k st =
     st\<lparr>heap := set_prop (heap st) (settings st) k (get_own (heap st) fetchedSettings k)\<rparr>"

definition pass_to :: "(jsval \<Rightarrow> store \<Rightarrow> store) \<Rightarrow> nat \<Rightarrow> string \<Rightarrow> store \<Rightarrow> store" where
  "pass_to setter fetchedSettings k st = setter (get_own (heap st) fetchedSettings k) st"

definition root_call :: "string \<Rightarrow> nat \<Rightarrow> string \<Rightarrow> store \<Rightarrow> store" where
  "root_call setter fetchedSettings k st =
     st\<lparr>rootStore := rootStore st @ [(setter, get_own (heap st) fetchedSettings k)]\<rparr>"

text \<open>Line 345: \<open>rootStore.setN8nMetadata(fetchedSettings.n8nMetadata || {})\<close>.\<close>

definition root_call_setN8nMetadata :: "nat \<Rightarrow> store \<Rightarrow> store" where
  "root_call_setN8nMetadata fetchedSettings st =
     (let m = get_own (heap st) fetchedSettings ''n8nMetadata''
      in if truthy m then st\<lparr>rootStore := rootStore st @ [(''setN8nMetadata'', m)]\<rparr>
         else (let (a, h) = alloc (heap st) Map.empty
               in st\<lparr>heap := h, rootStore := rootStore st @ [(''setN8nMetadata'', JRef a)]\<rparr>))"

text \<open>Line 348, and lines 350 to 352.\<close>

definition versions_call :: "nat \<Rightarrow> store \<Rightarrow> store" where
  "versions_call fetchedSettings st =
     st\<lparr>versionsStore := versionsStore st @ [get_own (heap st) fetchedSettings ''versionNotifications'']\<rparr>"

definition start_session :: "nat \<Rightarrow> store \<Rightarrow> store" where
  "start_session fetchedSettings st =
     (if truthy (get_prop (heap st) (get_own (heap st) fetchedSettings ''telemetry'') ''enabled'')
      then st\<lparr>sessionStarted := Suc (sessionStarted st)\<rparr>
      else st)"

definition after_setSettings :: "nat \<Rightarrow> store \<Rightarrow> store" where
  "after_setSettings f st =
     (let st = copy_to_settings f ''communityNodesEnabled'' st;
          st = copy_to_settings f ''unverifiedCommunityNodesEnabled'' st;
          st = pass_to setAllowedModules f ''allowedModules'' st;
          st = pass_to setSaveDataErrorExecution f ''saveDataErrorExecution'' st;
          st = pass_to setSaveDataSuccessExecution f ''saveDataSuccessExecution'' st;
          st = pass_to setSaveDataProgressExecution f ''saveExecutionProgress'' st;
          st = pass_to setSaveManualExecutions f ''saveManualExecutions'' st;
          st = root_call ''setUrlBaseWebhook'' f ''urlBaseWebhook'' st;
          st = root_call ''setUrlBaseEditor'' f ''urlBaseEditor'' st;
          st = root_call ''setEndpointForm'' f ''endpointForm'' st;
          st = root_call ''setEndpointFormTest'' f ''endpointFormTest'' st;
          st = root_call ''setEndpointFormWaiting'' f ''endpointFormWaiting'' st;
          st = root_call ''setEndpointWebhook'' f ''endpointWebhook'' st;
          st = root_call ''setEndpointWebhookTest'' f ''endpointWebhookTest'' st;
          st = root_call ''setEndpointWebhookWaiting'' f ''endpointWebhookWaiting'' st;
          st = root_call ''setTimezone'' f ''timezone'' st;
          st = root_call ''setExecutionTimeout'' f ''executionTimeout'' st;
          st = root_call ''setMaxExecutionTimeout'' f ''maxExecutionTimeout'' st;
          st = root_call ''setInstanceId'' f ''instanceId'' st;
          st = root_call ''setOauthCallbackUrls'' f ''oauthCallbackUrls'' st;
          st = root_call_setN8nMetadata f st;
          st = root_call ''setDefaultLocale'' f ''defaultLocale'' st;
          st = root_call ''setBinaryDataMode'' f ''binaryDataMode'' st;
          st = versions_call f st
      in start_session f st)"

text \<open>
  \<open>getSettings\<close>, lines 319 to 353. \<open>fetched\<close> is how the awaited request settled: rejected,
  or fulfilled with the address of the payload object that the client built in the heap.
\<close>

definition getSettings :: "browser_env \<Rightarrow> jsval js_error + nat \<Rightarrow> store \<Rightarrow> unit outcome" where
  "getSettings env fetched st =
     (case fetched of
        Inl e \<Rightarrow> (Inl e, st)
      | Inr fetchedSettings \<Rightarrow>
          (case setSettings env fetchedSettings st of
             (Inl e, st1) \<Rightarrow> (Inl e, st1)
           | (Inr _, st1) \<Rightarrow> (Inr (), after_setSettings fetchedSettings st1)))"

text \<open>\<open>initialize\<close>, lines 355 to 375.\<close>

definition initialize :: "browser_env \<Rightarrow> jsval js_error + nat \<Rightarrow> store \<Rightarrow> unit outcome" where
  "initialize env fetched st =
     (if initialized st then (Inr (), st)
      else case getSettings env fetched st of
             (Inr _, st1) \<Rightarrow> (Inr (), st1\<lparr>initialized := True\<rparr>)
           | (Inl e, st1) \<Rightarrow>
               (Inl e, st1\<lparr>toasts := toasts st1 @
                  [\<lparr>toast_title = ''startupError'', toast_message = ''startupError.message'',
                    toast_type = ''error'', toast_duration = 0\<rparr>]\<rparr>))"

text \<open>Lines 377 to 379: writing a property of \<open>undefined\<close>, \<open>null\<close> or a primitive throws.\<close>

definition stopShowingSetupPage :: "store \<Rightarrow> unit outcome" where
  "stopShowingSetupPage st =
     (case userManagement st of
        JRef u \<Rightarrow> (Inr (), st\<lparr>heap := set_prop (heap st) u ''showSetupOnFirstLoad'' (JBool False)\<rparr>)
      | _ \<Rightarrow> (Inl TypeError, st))"

text \<open>Lines 381 to 389: two object literals, the outer one created first.\<close>

definition disableTemplates :: "store \<Rightarrow> store" where
  "disableTemplates st =
     (let (a, h) = alloc (heap st) (deref (heap st) (settings st));
          (t, h) = alloc h ((own_props h (get_own h (settings st) ''templates''))
                              (''enabled'' \<mapsto> JBool False));
          h = set_prop h a ''templates'' (JRef t)
      in st\<lparr>heap := h, settings := a\<rparr>)"

text \<open>
  Lines 391 to 402. \<open>sent\<close> is how the awaited request settled; a failure is caught and
  the function returns nothing.
\<close>

definition submitContactInfo :: "jsval js_error + jsval \<Rightarrow> string \<Rightarrow> store \<Rightarrow> jsval outcome" where
  "submitContactInfo sent email' st =
     (case sent of Inl e \<Rightarrow> (Inr JUndefined, st) | Inr v \<Rightarrow> (Inr v, st))"

text \<open>
  Lines 404 to 408. The health probe is raced against a promise that a timer rejects, with
  no reason, after 2000 ms. What decides the race is the state of the probe at the moment
  the timer fires: still pending (a probe that never settles is pending then too),
  fulfilled, or rejected. The \<open>await\<close> is not inside a \<open>try\<close>.
\<close>

datatype probe = ProbePending | ProbeFulfilled jsval | ProbeRejected jsval

definition race_with_timeout :: "probe \<Rightarrow> jsval js_error + jsval" where
  "race_with_timeout p =
     (case p of
        ProbePending \<Rightarrow> Inl (Rejection JUndefined)
      | ProbeFulfilled v \<Rightarrow> Inr v
      | ProbeRejected r \<Rightarrow> Inl (Rejection r))"

definition testTemplatesEndpoint :: "probe \<Rightarrow> store \<Rightarrow> unit outcome" where
  "testTemplatesEndpoint p st =
     (case race_with_timeout p of
        Inl e \<Rightarrow> (Inl e, st)
      | Inr _ \<Rightarrow> (Inr (), st\<lparr>templatesEndpointHealthy := True\<rparr>))"

text \<open>Lines 410 to 422.\<close>

definition getTimezones :: "jsval js_error + jsval \<Rightarrow> store \<Rightarrow> jsval outcome" where
  "getTimezones answered st = (answered, st)"

definition reset :: "store \<Rightarrow> store" where
  "reset st = (let (a, h) = alloc (heap st) Map.empty in st\<lparr>heap := h, settings := a\<rparr>)"

definition getModuleSettings :: "jsval js_error + jsval \<Rightarrow> store \<Rightarrow> unit outcome" where
  "getModuleSettings fetched st =
     (case fetched of
        Inl e \<Rightarrow> (Inl e, st)
      | Inr v \<Rightarrow> (Inr (), st\<lparr>moduleSettings := v\<rparr>))"

text \<open>
  Every function the store returns (lines 535 to 548), with the arguments of a call and
  with how the requests it awaits settle; \<open>step\<close> is the state a call leaves.
\<close>

datatype action =
    HasFeature string
  | IsFeatureEnabled string
  | GetFeatureFlag string
  | Reset
  | GetTimezones "jsval js_error + jsval"
  | TestTemplatesEndpoint probe
  | SubmitContactInfo "jsval js_error + jsval" string
  | DisableTemplates
  | StopShowingSetupPage
  | GetSettings browser_env "jsval js_error + nat"
  | SetSettings browser_env nat
  | Initialize browser_env "jsval js_error + nat"
  | GetModuleSettings "jsval js_error + jsval"

fun step :: "action \<Rightarrow> store \<Rightarrow> store" where
  "step (HasFeature x) st = st"
| "step (IsFeatureEnabled x) st = st"
| "step (GetFeatureFlag x) st = st"
| "step Reset st = reset st"
| "step (GetTimezones r) st = snd (getTimezones r st)"
| "step (TestTemplatesEndpoint p) st = snd (testTemplatesEndpoint p st)"
| "step (SubmitContactInfo r e) st = snd (submitContactInfo r e st)"
| "step DisableTemplates st = disableTemplates st"
| "step StopShowingSetupPage st = snd (stopShowingSetupPage st)"
| "step (GetSettings env r) st = snd (getSettings env r st)"
| "step (SetSettings env a) st = snd (setSettings env a st)"
| "step (Initialize env r) st = snd (initialize env r st)"
| "step (GetModuleSettings r) st = snd (getModuleSettings r st)"

text \<open>The store after a sequence of calls.\<close>

definition run :: "action list \<Rightarrow> store \<Rightarrow> store" where
  "run acts st = fold step acts st"

text \<open>The keys that \<open>setSettings\<close> writes into the \<open>enterprise\<close> object.\<close>

definition enterprise_forced :: "string list" where
  "enterprise_forced =
     [''variables'', ''advancedPermissions'', ''sourceControl'', ''auditLogs'', ''sso'',
      ''logStreaming'', ''workflowHistory'', ''debugInEditor'', ''binaryDataS3'',
      ''multipleMainInstances'', ''workerView'']"

text \<open>
  A store that is about to ingest a payload: the new store, and in its heap at address 7
  the payload \<open>{enterprise: {sso: false, ldap: false}, license: {planName: "Community"}}\<close>
  with its two sub-objects at addresses 8 and 9.
\<close>

definition community_payload_store :: store where
  "community_payload_store =
     init_store\<lparr>heap := heap init_store @
       [[''enterprise'' \<mapsto> JRef 8, ''license'' \<mapsto> JRef 9],
        [''sso'' \<mapsto> JBool False, ''ldap'' \<mapsto> JBool False],
        [''planName'' \<mapsto> JStr ''Community'']]\<rparr>"

definition plain_env :: browser_env where
  "plain_env =
     \<lparr>location_protocol = ''https:'', location_hostname = ''localhost'',
      browser_name = Some ''Firefox'', INSECURE_CONNECTION_WARNING = ''insecure''\<rparr>"

section \<open>Properties of the license service\<close>

lemma MAX_SAFE_INTEGER_power: "MAX_SAFE_INTEGER = 2 ^ 53 - 1"
  by (simp add: MAX_SAFE_INTEGER_def)

lemmas service_defs =
  logger_info_def emit_def activateLicense_def renewLicense_def registerCommunityEdition_def

text \<open>
  C3. For every input, \<open>activateLicense\<close>, \<open>renewLicense\<close> and \<open>registerCommunityEdition\<close>
  each resolve (no branch throws), and each call hands exactly one event to the event
  service: \<open>license-activated\<close>, \<open>license-renewal-attempted\<close> with \<open>success: true\<close>, and
  \<open>license-community-plus-registered\<close>.
\<close>

theorem lifecycle_calls_resolve_and_emit_once:
  "fst (activateLicense activationKey s) = Inr ()
   \<and> eventService (snd (activateLicense activationKey s)) =
       eventService s @
         [\<lparr>event_name = ''license-activated'',
           event_payload = [(''activationKey'', LStr ''enterprise-bypass-key''),
                            (''planName'', LStr ''Enterprise'')]\<rparr>]
   \<and> fst (renewLicense s) = Inr ()
   \<and> eventService (snd (renewLicense s)) =
       eventService s @
         [\<lparr>event_name = ''license-renewal-attempted'',
           event_payload = [(''success'', LBool True)]\<rparr>]
   \<and> fst (registerCommunityEdition r s) =
       Inr \<lparr>title = ''Enterprise Features Enabled'',
            body = ''All enterprise features have been enabled for this instance.''\<rparr>
   \<and> eventService (snd (registerCommunityEdition r s)) =
       eventService s @
         [\<lparr>event_name = ''license-community-plus-registered'',
           event_payload = [(''userId'', LStr (userId r)),
                            (''email'', LStr (email r)),
                            (''licenseKey'', LStr ''enterprise-bypass-key'')]\<rparr>]"
  by (simp add: service_defs)

text \<open>
  C9. What \<open>activateLicense\<close> returns, emits and logs does not depend on the activation key:
  two calls from the same state with any two keys give the same result and the same state,
  the event carrying \<open>enterprise-bypass-key\<close> and the log line carrying \<open>***hidden***\<close>.
\<close>

theorem activateLicense_ignores_key:
  "activateLicense k1 s = activateLicense k2 s
   \<and> last (eventService (snd (activateLicense k1 s))) =
       \<lparr>event_name = ''license-activated'',
        event_payload = [(''activationKey'', LStr ''enterprise-bypass-key''),
                         (''planName'', LStr ''Enterprise'')]\<rparr>
   \<and> last (logger (snd (activateLicense k1 s))) =
       \<lparr>log_level = ''info'', log_message = ''License activation bypassed'',
        log_fields = Some [(''activationKey'', LStr ''***hidden***'')]\<rparr>"
  by (simp add: service_defs)

subsection \<open>The usage record\<close>

text \<open>
  C5, as stated, at an instance with three users and five variables: the record reports one
  user and no variable. The claim that each \<open>value\<close> is the queried consumption fails
  for these two resources.
\<close>

theorem getLicenseData_reports_fixed_users:
  "userCount (workflowRepository three_users_deps) = 3
   \<and> lit_at [''usage'', ''users'', ''value''] (getLicenseData three_users_deps) = Some (LNum 1)
   \<and> variableCount (workflowRepository three_users_deps) = 5
   \<and> lit_at [''usage'', ''variables'', ''value''] (getLicenseData three_users_deps) = Some (LNum 0)"
  by (simp add: getLicenseData_def three_users_deps_def bare_deps_def)

text \<open>
  C5, amended. In the record \<open>getLicenseData\<close> returns, the \<open>value\<close> of the workflow
  triggers and of the evaluation-enabled workflows is the count the repository query
  returns; the \<open>value\<close> of the users is the constant 1 and that of the variables the
  constant 0; the \<open>limit\<close> of each of the four resources is \<open>Number.MAX_SAFE_INTEGER\<close>;
  all this for every state of the workflow store.
\<close>

theorem getLicenseData_usage_record:
  "lit_at [''usage'', ''activeWorkflowTriggers'', ''value''] (getLicenseData s) =
     Some (LNum (of_nat (getActiveTriggerCount (workflowRepository s))))
   \<and> lit_at [''usage'', ''workflowsHavingEvaluations'', ''value''] (getLicenseData s) =
     Some (LNum (of_nat (getWorkflowsWithEvaluationCount (workflowRepository s))))
   \<and> lit_at [''usage'', ''users'', ''value''] (getLicenseData s) = Some (LNum 1)
   \<and> lit_at [''usage'', ''variables'', ''value''] (getLicenseData s) = Some (LNum 0)
   \<and> lit_at [''usage'', ''activeWorkflowTriggers'', ''limit''] (getLicenseData s) =
     Some (LNum MAX_SAFE_INTEGER)
   \<and> lit_at [''usage'', ''workflowsHavingEvaluations'', ''limit''] (getLicenseData s) =
     Some (LNum MAX_SAFE_INTEGER)
   \<and> lit_at [''usage'', ''users'', ''limit''] (getLicenseData s) = Some (LNum MAX_SAFE_INTEGER)
   \<and> lit_at [''usage'', ''variables'', ''limit''] (getLicenseData s) = Some (LNum MAX_SAFE_INTEGER)"
  by (simp add: getLicenseData_def Let_def)

subsection \<open>The override installer\<close>


text \<open>The two lists name exactly the properties the installer assigns.\<close>

lemma patch_license_frame:
  "name \<notin> set license_patched \<Longrightarrow> patch_license lic name = lic name"
  by (simp add: license_patched_def patch_license_def)

lemma patch_licenseState_frame:
  "name \<notin> set licenseState_patched \<Longrightarrow> patch_licenseState ls name = ls name"
  by (simp add: licenseState_patched_def patch_licenseState_def)









lemma patch_again_logs_again:
  "logger (patchLicenseForEnterprise (patchLicenseForEnterprise s)) =
     logger (patchLicenseForEnterprise s) @
       [\<lparr>log_level = ''info'',
         log_message = ''Enterprise features enabled via license override'',
         log_fields = None\<rparr>]"
  by (simp add: patchLicenseForEnterprise_def logger_info_def)

section \<open>Properties of the settings store\<close>

subsection \<open>The forced getters\<close>

lemmas getter_defs =
  isVariablesEnabled_def isAdvancedPermissionsEnabled_def isSourceControlEnabled_def
  isAuditLogsEnabled_def isSsoEnabled_def isLogStreamingEnabled_def
  isWorkflowHistoryEnabled_def isDebugInEditorEnabled_def isBinaryDataS3Enabled_def
  isMultipleMainInstancesEnabled_def isAdvancedExecutionFiltersEnabled_def isLdapEnabled_def
  isSamlEnabled_def isExternalSecretsEnabled_def isWorkflowSharingEnabled_def
  isProjectsEnabled_def isRbacEnabled_def isWorkerViewAvailable_def

lemma enablement_getter_True: "enablement_getter k st"
  by (cases k) (simp_all add: getter_defs)

text \<open>
  C2. \<open>hasFeature\<close>, \<open>isFeatureEnabled\<close> and \<open>getFeatureFlag\<close> return true for every string,
  the empty one included.
\<close>

theorem generic_lookups_true:
  "hasFeature x \<and> isFeatureEnabled x \<and> getFeatureFlag x
   \<and> hasFeature [] \<and> isFeatureEnabled [] \<and> getFeatureFlag []"
  by (simp add: hasFeature_def isFeatureEnabled_def getFeatureFlag_def)

subsection \<open>Reading and writing the heap\<close>

lemma length_set_prop [simp]: "length (set_prop h a k v) = length h"
  by (simp add: set_prop_def)

lemma deref_set_prop:
  "deref (set_prop h a k v) b =
     (if b = a \<and> a < length h then (deref h a)(k \<mapsto> v) else deref h b)"
  by (simp add: set_prop_def deref_def)

lemma get_own_set_prop:
  "get_own (set_prop h a k v) b k' =
     (if b = a \<and> a < length h \<and> k' = k then v else get_own h b k')"
  by (simp add: get_own_def deref_set_prop)

lemma deref_append:
  "deref (h @ [obj]) b = (if b = length h then obj else deref h b)"
  by (simp add: deref_def nth_append)

lemma get_own_append:
  "get_own (h @ [obj]) b k =
     (if b = length h then (case obj k of None \<Rightarrow> JUndefined | Some v \<Rightarrow> v)
      else get_own h b k)"
  by (simp add: get_own_def deref_append)

subsection \<open>What the two forced objects hold\<close>

lemma force_enterprise_frame [simp]:
  "settings (force_enterprise st) = settings st"
  "length (heap (force_enterprise st)) = Suc (length (heap st))"
  by (simp_all add: force_enterprise_def alloc_def Let_def)

lemma force_license_frame [simp]:
  "settings (force_license st) = settings st"
  "length (heap (force_license st)) = Suc (length (heap st))"
  by (simp_all add: force_license_def alloc_def Let_def)



text \<open>A key that is not among the eleven is copied from the fetched object.\<close>

lemma force_enterprise_other:
  "settings st < length (heap st) \<Longrightarrow> k \<notin> set enterprise_forced \<Longrightarrow>
   get_own (heap (force_enterprise st)) (length (heap st)) k =
     (let e = get_own (heap st) (settings st) ''enterprise''
      in if truthy e then (case own_props (heap st) e k of None \<Rightarrow> JUndefined | Some v \<Rightarrow> v)
         else JUndefined)"
  unfolding enterprise_forced_def
  by (simp add: force_enterprise_def alloc_def Let_def get_own_set_prop get_own_append)






subsection \<open>The steps of \<open>setSettings\<close> around the patch\<close>


lemma early_steps_frame [simp]:
  "settings (assign_api st) = settings st"
  "heap (assign_api st) = heap st"
  "settings (assign_mfa_enabled st) = settings st"
  "length (heap (assign_mfa_enabled st)) = length (heap st)"
  "settings (assign_folders_enabled st) = settings st"
  "length (heap (assign_folders_enabled st)) = length (heap st)"
  by (simp_all add: assign_api_def assign_mfa_enabled_def assign_folders_enabled_def)

lemma late_steps_frame [simp]:
  "settings (pass_versionCli st) = settings st"
  "heap (pass_versionCli st) = heap st"
  "settings (warn_insecure_connection env st) = settings st"
  "heap (warn_insecure_connection env st) = heap st"
  by (simp_all add: pass_versionCli_def warn_insecure_connection_def Let_def)

lemma patch_settings_frame [simp]: "settings (patch_settings st) = settings st"
  by (simp add: patch_settings_def)






lemma community_payload_as_fetched:
  "get_prop (heap community_payload_store)
     (get_own (heap community_payload_store) 7 ''enterprise'') ''sso'' = JBool False
   \<and> get_prop (heap community_payload_store)
       (get_own (heap community_payload_store) 7 ''license'') ''planName'' = JStr ''Community''"
  by (simp add: community_payload_store_def init_store_def get_own_def deref_def)


text \<open>
  What the patch leaves alone, on the same payload: a key outside the eleven keeps the
  fetched value (\<open>ldap\<close> stays false, while the getter \<open>isLdapEnabled\<close> is true), and the
  fetched \<open>enterprise\<close> object itself, at address 8, is not written: the payload's
  \<open>enterprise\<close> property now refers to the patched copy.
\<close>

lemma community_payload_unlisted_key:
  "get_prop (heap (snd (setSettings plain_env 7 community_payload_store)))
     (get_own (heap (snd (setSettings plain_env 7 community_payload_store))) 7 ''enterprise'')
     ''ldap'' = JBool False
   \<and> isLdapEnabled (snd (setSettings plain_env 7 community_payload_store))"
  by code_simp

lemma community_payload_fetched_object:
  "get_own (heap (snd (setSettings plain_env 7 community_payload_store))) 8 ''sso'' = JBool False
   \<and> get_own (heap (snd (setSettings plain_env 7 community_payload_store))) 7 ''enterprise'' =
       JRef 10"
  by code_simp

text \<open>
  C1. For each of the eighteen feature keys, after the store has ingested any payload
  (through \<open>setSettings\<close>, \<open>getSettings\<close> or \<open>initialize\<close>), the key's getter is true and
  \<open>isEnterpriseFeatureEnabled\<close> applied to the key is true, whatever the payload holds.
\<close>

theorem getters_true_after_ingestion:
  "enablement_getter k (snd (setSettings env newSettings st))
   \<and> isEnterpriseFeatureEnabled (snd (setSettings env newSettings st)) [JStr (key_name k)]
   \<and> enablement_getter k (snd (getSettings env fetched st))
   \<and> isEnterpriseFeatureEnabled (snd (getSettings env fetched st)) [JStr (key_name k)]
   \<and> enablement_getter k (snd (initialize env fetched st))
   \<and> isEnterpriseFeatureEnabled (snd (initialize env fetched st)) [JStr (key_name k)]"
  by (simp add: enablement_getter_True isEnterpriseFeatureEnabled_def)

text \<open>The payload that reports \<open>sso\<close> as false: the getter is true after ingestion.\<close>

theorem getters_true_after_false_payload:
  "get_prop (heap community_payload_store)
     (get_own (heap community_payload_store) 7 ''enterprise'') ''sso'' = JBool False
   \<and> isSsoEnabled (snd (setSettings plain_env 7 community_payload_store))
   \<and> isEnterpriseFeatureEnabled (snd (setSettings plain_env 7 community_payload_store))
       [JStr ''sso'']
   \<and> isSsoEnabled (snd (initialize plain_env (Inr 7) community_payload_store))"
  using getters_true_after_ingestion
    [of Sso plain_env 7 community_payload_store "Inr 7"] community_payload_as_fetched
  by simp

subsection \<open>The templates health probe\<close>

text \<open>
  C6, as stated, on the new store: when the probe is still pending as the timer fires, the
  call does not return normally; its promise is rejected, with no reason, to the caller.
\<close>

theorem testTemplatesEndpoint_timeout_reaches_caller:
  "fst (testTemplatesEndpoint ProbePending init_store) = Inl (Rejection JUndefined)"
  by (simp add: testTemplatesEndpoint_def race_with_timeout_def)

text \<open>
  C6, amended. When the probe never resolves, the timer's rejection wins the race after
  2 seconds: \<open>testTemplatesEndpoint\<close> leaves the store, and with it
  \<open>isTemplatesEndpointReachable\<close>, as it was before the call, and the rejection is not
  caught: the promise the caller holds is rejected (with \<open>undefined\<close>).
\<close>

theorem testTemplatesEndpoint_timeout:
  "testTemplatesEndpoint ProbePending st = (Inl (Rejection JUndefined), st)
   \<and> isTemplatesEndpointReachable (snd (testTemplatesEndpoint ProbePending st)) =
       isTemplatesEndpointReachable st"
  by (simp add: testTemplatesEndpoint_def race_with_timeout_def)

text \<open>A probe that is rejected before the timer fires reaches the caller in the same way.\<close>

lemma testTemplatesEndpoint_probe_rejected:
  "testTemplatesEndpoint (ProbeRejected r) st = (Inl (Rejection r), st)"
  by (simp add: testTemplatesEndpoint_def race_with_timeout_def)

subsection \<open>The health flag under the operations of the store\<close>

lemma healthy_assign_showSetup:
  "assign_showSetupOnFirstLoad st = Inr st' \<Longrightarrow>
   templatesEndpointHealthy st' = templatesEndpointHealthy st"
  by (auto simp: assign_showSetupOnFirstLoad_def split: if_splits jsval.splits)

lemma healthy_steps [simp]:
  "templatesEndpointHealthy (assign_api st) = templatesEndpointHealthy st"
  "templatesEndpointHealthy (assign_mfa_enabled st) = templatesEndpointHealthy st"
  "templatesEndpointHealthy (assign_folders_enabled st) = templatesEndpointHealthy st"
  "templatesEndpointHealthy (force_enterprise st) = templatesEndpointHealthy st"
  "templatesEndpointHealthy (force_license st) = templatesEndpointHealthy st"
  "templatesEndpointHealthy (pass_versionCli st) = templatesEndpointHealthy st"
  "templatesEndpointHealthy (warn_insecure_connection env st) = templatesEndpointHealthy st"
  by (simp_all add: assign_api_def assign_mfa_enabled_def assign_folders_enabled_def
      force_enterprise_def force_license_def pass_versionCli_def warn_insecure_connection_def
      alloc_def Let_def)

lemma healthy_patch_settings [simp]:
  "templatesEndpointHealthy (patch_settings st) = templatesEndpointHealthy st"
  by (simp add: patch_settings_def)

lemma healthy_setSettings:
  "templatesEndpointHealthy (snd (setSettings env a st)) = templatesEndpointHealthy st"
  by (auto simp: setSettings_def Let_def split: sum.splits dest: healthy_assign_showSetup)

lemma healthy_after_steps [simp]:
  "templatesEndpointHealthy (copy_to_settings f k st) = templatesEndpointHealthy st"
  "templatesEndpointHealthy (pass_to setAllowedModules f k st) = templatesEndpointHealthy st"
  "templatesEndpointHealthy (pass_to setSaveDataErrorExecution f k st) =
     templatesEndpointHealthy st"
  "templatesEndpointHealthy (pass_to setSaveDataSuccessExecution f k st) =
     templatesEndpointHealthy st"
  "templatesEndpointHealthy (pass_to setSaveDataProgressExecution f k st) =
     templatesEndpointHealthy st"
  "templatesEndpointHealthy (pass_to setSaveManualExecutions f k st) =
     templatesEndpointHealthy st"
  "templatesEndpointHealthy (root_call n f k st) = templatesEndpointHealthy st"
  "templatesEndpointHealthy (root_call_setN8nMetadata f st) = templatesEndpointHealthy st"
  "templatesEndpointHealthy (versions_call f st) = templatesEndpointHealthy st"
  "templatesEndpointHealthy (start_session f st) = templatesEndpointHealthy st"
  by (simp_all add: copy_to_settings_def pass_to_def setAllowedModules_def
      setSaveDataErrorExecution_def setSaveDataSuccessExecution_def
      setSaveDataProgressExecution_def setSaveManualExecutions_def root_call_def
      root_call_setN8nMetadata_def versions_call_def start_session_def alloc_def Let_def)

lemma healthy_after_setSettings:
  "templatesEndpointHealthy (after_setSettings f st) = templatesEndpointHealthy st"
  by (simp add: after_setSettings_def Let_def)

lemma healthy_getSettings:
  "templatesEndpointHealthy (snd (getSettings env r st)) = templatesEndpointHealthy st"
proof (cases r)
  case (Inl e)
  then show ?thesis
    by (simp add: getSettings_def)
next
  case (Inr f)
  obtain res st1 where s: "setSettings env f st = (res, st1)"
    by (cases "setSettings env f st")
  with healthy_setSettings [of env f st]
  have "templatesEndpointHealthy st1 = templatesEndpointHealthy st"
    by simp
  with Inr s show ?thesis
    by (cases res) (simp_all add: getSettings_def healthy_after_setSettings)
qed

lemma healthy_initialize:
  "templatesEndpointHealthy (snd (initialize env r st)) = templatesEndpointHealthy st"
proof (cases "initialized st")
  case True
  then show ?thesis
    by (simp add: initialize_def)
next
  case False
  obtain res st1 where g: "getSettings env r st = (res, st1)"
    by (cases "getSettings env r st")
  with healthy_getSettings [of env r st]
  have "templatesEndpointHealthy st1 = templatesEndpointHealthy st"
    by simp
  with False g show ?thesis
    by (cases res) (simp_all add: initialize_def)
qed

lemma healthy_reset: "templatesEndpointHealthy (reset st) = templatesEndpointHealthy st"
  by (simp add: reset_def alloc_def)

lemma healthy_disableTemplates:
  "templatesEndpointHealthy (disableTemplates st) = templatesEndpointHealthy st"
  by (simp add: disableTemplates_def alloc_def Let_def)

lemma healthy_stopShowingSetupPage:
  "templatesEndpointHealthy (snd (stopShowingSetupPage st)) = templatesEndpointHealthy st"
  by (simp add: stopShowingSetupPage_def split: jsval.splits)

lemma healthy_testTemplatesEndpoint:
  "templatesEndpointHealthy (snd (testTemplatesEndpoint p st)) =
     (templatesEndpointHealthy st \<or> (\<exists>v. p = ProbeFulfilled v))"
  by (cases p) (simp_all add: testTemplatesEndpoint_def race_with_timeout_def)

lemma healthy_requests:
  "templatesEndpointHealthy (snd (getTimezones r st)) = templatesEndpointHealthy st"
  "templatesEndpointHealthy (snd (submitContactInfo r e st)) = templatesEndpointHealthy st"
  "templatesEndpointHealthy (snd (getModuleSettings r' st)) = templatesEndpointHealthy st"
  by (simp_all add: getTimezones_def submitContactInfo_def getModuleSettings_def
      split: sum.splits)

lemma step_keeps_healthy:
  "templatesEndpointHealthy st \<Longrightarrow> templatesEndpointHealthy (step a st)"
  by (cases a)
     (simp_all add: healthy_reset healthy_disableTemplates healthy_stopShowingSetupPage
        healthy_testTemplatesEndpoint healthy_requests healthy_setSettings healthy_getSettings
        healthy_initialize)

lemma run_keeps_healthy:
  "templatesEndpointHealthy st \<Longrightarrow> templatesEndpointHealthy (run acts st)"
  unfolding run_def
  by (induction acts arbitrary: st) (simp_all add: step_keeps_healthy)

text \<open>
  C10. \<open>templatesEndpointHealthy\<close> is false in the new store, and once it is true it is true
  after every sequence of calls of the store's functions, whatever their arguments and
  however their requests settle: \<open>testTemplatesEndpoint\<close> leaves it as it was or sets it to
  true, and \<open>reset\<close> leaves it as it was.
\<close>

theorem templatesEndpointHealthy_monotone:
  "\<not> templatesEndpointHealthy init_store
   \<and> (templatesEndpointHealthy st \<longrightarrow> templatesEndpointHealthy (run acts st))
   \<and> templatesEndpointHealthy (snd (testTemplatesEndpoint p st)) =
       (templatesEndpointHealthy st \<or> (\<exists>v. p = ProbeFulfilled v))
   \<and> templatesEndpointHealthy (reset st) = templatesEndpointHealthy st"
  by (simp add: init_store_def run_keeps_healthy healthy_testTemplatesEndpoint healthy_reset)

text \<open>
  A store whose probe once answered in time, then reset, a probe that times out, a failed
  start and \<open>disableTemplates\<close>: the flag is still true.
\<close>

theorem templatesEndpointHealthy_stays_true:
  "templatesEndpointHealthy (snd (testTemplatesEndpoint (ProbeFulfilled JNull) init_store))
   \<and> templatesEndpointHealthy
       (run [Reset, TestTemplatesEndpoint ProbePending,
             Initialize plain_env (Inl (Rejection JNull)), DisableTemplates]
          (snd (testTemplatesEndpoint (ProbeFulfilled JNull) init_store)))"
proof -
  have h: "templatesEndpointHealthy
             (snd (testTemplatesEndpoint (ProbeFulfilled JNull) init_store))"
    by (simp add: testTemplatesEndpoint_def race_with_timeout_def)
  show ?thesis
    using h templatesEndpointHealthy_monotone
      [of "snd (testTemplatesEndpoint (ProbeFulfilled JNull) init_store)"
          "[Reset, TestTemplatesEndpoint ProbePending,
            Initialize plain_env (Inl (Rejection JNull)), DisableTemplates]"]
    by blast
qed

subsection \<open>The forced values\<close>






end
